theory Spec2Isabelle
  imports Complex_Main "HOL-Library.Char_ord" "HOL-Library.List_Lexorder"
    "HOL-Library.Option_ord" "HOL-Library.Product_Lexorder"
begin

section \<open>Primary fuel of boilers and plants (pudl.analysis.egrid)\<close>

text \<open>
  The module \<^verbatim>\<open>src/pudl/analysis/egrid.py\<close> holds two functions over pandas data frames:
  \<^verbatim>\<open>calculate_fuel_percentage\<close> (the specification's \<^verbatim>\<open>compute_fuel_shares\<close>) and
  \<^verbatim>\<open>determine_primary_fuel\<close> (the specification's \<^verbatim>\<open>classify_primary_fuel\<close>, which in the
  code takes the raw records and calls \<^verbatim>\<open>calculate_fuel_percentage\<close> itself).

  Conventions of the embedding.
  \<^item> A float64 cell is a \<open>rat option\<close>: \<open>None\<close> is NaN (pandas' missing value), \<open>Some q\<close> a
    finite number. Arithmetic on finite numbers is exact: the rounding, the overflow and
    the infinities of IEEE 754 are not modelled. In the program a product or a sum beyond
    the range of float64 is an infinity, and a share \<open>inf / inf\<close> is NaN; a sum of heats
    of both signs can round to a total that is not the exact one. The examples below use
    heats and shares that float64 holds exactly. The statements about shares and labels
    are made on the cells of the share table, a NaN cell counting as no number, so that
    they do not rest on every share being finite.
  \<^item> A key cell (plant, boiler, date, fuel code) is an option as well: \<open>None\<close> is a
    missing value. The six input columns exist by construction (a frame without one of
    them, which makes pandas raise KeyError, is excluded by the type).
  \<^item> The behaviour of the pandas operations is taken from the pandas documentation:
    \<^verbatim>\<open>pivot_table\<close> aggregates with the mean by default, skips NaN, drops groups with a
    missing key and groups without any value, and sorts index and columns;
    \<^verbatim>\<open>groupby(...).sum()\<close> skips NaN and gives 0 for a group without values;
    \<^verbatim>\<open>sum(axis=1)\<close> skips NaN; \<^verbatim>\<open>idxmax(axis=1)\<close> gives the label of the first
    maximum, skipping NaN, and NaN for a row without values.
  \<^item> Fuel codes and boiler ids are strings, ordered as Python orders them:
    lexicographically, character by character, by character code. Row labels are
    ordered as tuples.
\<close>

subsection \<open>Data\<close>

type_synonym num = "rat option"

text \<open>A reporting month, counted from some epoch; only its order matters.\<close>

type_synonym date = nat

text \<open>One row of \<^verbatim>\<open>boiler_fuel_eia923\<close>, with the six columns the docstrings list.\<close>

record boiler_fuel =
  plant_id_eia :: "int option"
  boiler_id :: "string option"
  fuel_type_code :: "string option"
  report_date :: "date option"
  fuel_consumed_units :: num
  fuel_mmbtu_per_unit :: num

text \<open>
  The caller's frame \<^verbatim>\<open>bf_df\<close>: its rows, and the column \<^verbatim>\<open>fuel_consumed_mmbtu\<close>
  when the frame has one (the function assigns it).
\<close>

record bf_frame =
  records :: "boiler_fuel list"
  fuel_consumed_mmbtu :: "num list option"

text \<open>
  The row labels of a pivoted frame: \<open>(report_date, plant_id_eia, boiler_id)\<close>, the boiler
  being \<open>None\<close> at plant level, where the frame has no such column.
\<close>

type_synonym key = "date \<times> int \<times> string option"

text \<open>
  A wide frame: its row labels in order, its column labels in order, and its cells.
  Only the cells at a row label and a column label of the frame mean anything.
\<close>

record frame =
  index :: "key list"
  columns :: "string list"
  cell :: "key \<Rightarrow> string \<Rightarrow> num"

text \<open>
  The exceptions the two functions can meet: reading the local \<^verbatim>\<open>fuel_pivot\<close> that no
  branch bound, reading a column the frame lacks, and pandas' ValueError (inserting an
  index level whose name is already a column; idxmax over no column).
\<close>

datatype error = UnboundLocalError | KeyError | ValueError

subsection \<open>Float cells\<close>

text \<open>
  The product of two cells, NaN when one of them is. It is the exact product: the program
  rounds it to float64, to an infinity beyond the range.
\<close>

definition fmul :: "num \<Rightarrow> num \<Rightarrow> num" where
  "fmul a b = (case a of None \<Rightarrow> None | Some x \<Rightarrow> (case b of None \<Rightarrow> None | Some y \<Rightarrow> Some (x * y)))"

text \<open>
  Division of cells, exact as well. A finite number over zero is an infinity or NaN in
  IEEE 754, which the model does not represent: it is \<open>None\<close> here, and the function
  never divides by zero (the rows whose total is zero are dropped first). The quotient
  \<open>inf / inf\<close> of the program, which is NaN, has no counterpart here.
\<close>

definition fdiv :: "num \<Rightarrow> num \<Rightarrow> num" where
  "fdiv a b = (case a of None \<Rightarrow> None
     | Some x \<Rightarrow> (case b of None \<Rightarrow> None | Some y \<Rightarrow> if y = 0 then None else Some (x / y)))"

text \<open>\<^verbatim>\<open>cell >= fuel_thresh\<close>: a comparison with NaN is False.\<close>

definition fge :: "num \<Rightarrow> rat \<Rightarrow> bool" where
  "fge a th = (case a of None \<Rightarrow> False | Some x \<Rightarrow> th \<le> x)"

text \<open>A cell read with NaN skipped, as the sums of pandas read it.\<close>

definition nan_to_zero :: "num \<Rightarrow> rat" where
  "nan_to_zero a = (case a of None \<Rightarrow> 0 | Some x \<Rightarrow> x)"

subsection \<open>Long rows, grouping and pivoting\<close>

text \<open>
  The product of line 72, \<^verbatim>\<open>fuel_consumed_units * fuel_mmbtu_per_unit\<close>, row by row.
\<close>

definition consumed_mmbtu :: "boiler_fuel \<Rightarrow> num" where
  "consumed_mmbtu r = fmul (fuel_consumed_units r) (fuel_mmbtu_per_unit r)"

text \<open>
  The group of a record: its row label and its fuel code. Grouping (in
  \<^verbatim>\<open>pivot_table\<close> and in \<^verbatim>\<open>groupby\<close>) drops a record with a missing value in a grouping
  column; at plant level the boiler column has been dropped and is not read.
\<close>

definition group_key :: "string \<Rightarrow> boiler_fuel \<Rightarrow> (key \<times> string) option" where
  "group_key level r =
     (case report_date r of None \<Rightarrow> None | Some d \<Rightarrow>
      (case plant_id_eia r of None \<Rightarrow> None | Some p \<Rightarrow>
       (case fuel_type_code r of None \<Rightarrow> None | Some f \<Rightarrow>
        (if level = ''boiler''
         then (case boiler_id r of None \<Rightarrow> None | Some b \<Rightarrow> Some ((d, p, Some b), f))
         else Some ((d, p, None), f)))))"

type_synonym long = "key \<times> string \<times> num"

definition long_row :: "string \<Rightarrow> boiler_fuel \<times> num \<Rightarrow> long option" where
  "long_row level rh = (case group_key level (fst rh) of None \<Rightarrow> None | Some (k, f) \<Rightarrow> Some (k, f, snd rh))"

text \<open>
  Lines 77-81 and 92-95: the selection of the key columns and of
  \<^verbatim>\<open>fuel_consumed_mmbtu\<close>, which raises KeyError on a frame without that column. The
  rows come out with their group, those without one left out.
\<close>

definition long_rows :: "string \<Rightarrow> bf_frame \<Rightarrow> error + long list" where
  "long_rows level bf_df =
     (case fuel_consumed_mmbtu bf_df of
        None \<Rightarrow> Inl KeyError
      | Some hs \<Rightarrow> Inr (List.map_filter (long_row level) (zip (records bf_df) hs)))"

text \<open>The values of a group that are not NaN, in row order.\<close>

definition group_values :: "long list \<Rightarrow> key \<Rightarrow> string \<Rightarrow> rat list" where
  "group_values ls k f =
     List.map_filter (\<lambda>(k', f', h). if k' = k \<and> f' = f then h else None) ls"

definition groups :: "long list \<Rightarrow> (key \<times> string) list" where
  "groups ls = remdups (map (\<lambda>(k, f, h). (k, f)) ls)"

text \<open>
  Line 98: \<^verbatim>\<open>groupby([plant_id_eia, report_date, fuel_type_code]).sum().reset_index()\<close>.
  One row per group, holding the sum of the group's values that are not NaN (0 when
  there is none). pandas sorts the groups; the pivot that follows sorts again, so their
  order here is not observable.
\<close>

definition groupby_sum :: "long list \<Rightarrow> long list" where
  "groupby_sum ls = map (\<lambda>(k, f). (k, f, Some (sum_list (group_values ls k f)))) (groups ls)"

text \<open>The default aggregation of \<^verbatim>\<open>pivot_table\<close>: the mean, NaN for a group without values.\<close>

definition mean :: "rat list \<Rightarrow> num" where
  "mean vs = (if vs = [] then None else Some (sum_list vs / of_nat (length vs)))"

text \<open>
  \<^verbatim>\<open>pivot_table(index=..., columns='fuel_type_code', values='fuel_consumed_mmbtu')\<close>:
  the groups are aggregated by the mean, a group whose mean is NaN is dropped, and the
  rest is unstacked: one row per label, one column per fuel code, both sorted, NaN where
  a label has no group for a fuel. A pivot without any group has no row and no column
  here; what pandas makes of it depends on its version, and no statement below is about
  that case.
\<close>

definition pivot_table :: "long list \<Rightarrow> frame" where
  "pivot_table ls =
     (let agged = filter (\<lambda>(k, f). mean (group_values ls k f) \<noteq> None) (groups ls)
      in \<lparr>index = sort (remdups (map fst agged)),
          columns = sort (remdups (map snd agged)),
          cell = (\<lambda>k f. mean (group_values ls k f))\<rparr>)"

text \<open>
  Lines 75-106: the local \<^verbatim>\<open>fuel_pivot\<close>. For a level that is neither \<^verbatim>\<open>'boiler'\<close> nor
  \<^verbatim>\<open>'plant'\<close> no branch binds it, and line 109 raises UnboundLocalError when it reads it.
\<close>

definition fuel_pivot :: "bf_frame \<Rightarrow> string \<Rightarrow> error + frame" where
  "fuel_pivot bf_df level =
     (if level = ''boiler'' then
        (case long_rows level bf_df of Inl e \<Rightarrow> Inl e | Inr ls \<Rightarrow> Inr (pivot_table ls))
      else if level = ''plant'' then
        (case long_rows level bf_df of Inl e \<Rightarrow> Inl e | Inr ls \<Rightarrow> Inr (pivot_table (groupby_sum ls)))
      else Inl UnboundLocalError)"

subsection \<open>Frame operations\<close>

text \<open>
  \<^verbatim>\<open>frame.sum(axis=1, numeric_only=True)\<close>: the sum of a row, NaN skipped. The sum is
  exact, where the program adds in float64.
\<close>

definition sum_axis1 :: "frame \<Rightarrow> key \<Rightarrow> rat" where
  "sum_axis1 t k = sum_list (map (\<lambda>c. nan_to_zero (cell t k c)) (columns t))"

text \<open>
  \<^verbatim>\<open>frame[c] = series\<close>: a column of that name is overwritten where it stands, a new
  one is appended.
\<close>

definition set_column :: "string \<Rightarrow> (key \<Rightarrow> num) \<Rightarrow> frame \<Rightarrow> frame" where
  "set_column c s t =
     t\<lparr>columns := (if c \<in> set (columns t) then columns t else columns t @ [c]),
       cell := (\<lambda>k c'. if c' = c then s k else cell t k c')\<rparr>"

definition fillna :: "rat \<Rightarrow> frame \<Rightarrow> frame" where
  "fillna v t = t\<lparr>cell := (\<lambda>k c. case cell t k c of None \<Rightarrow> Some v | Some x \<Rightarrow> Some x)\<rparr>"

text \<open>\<^verbatim>\<open>frame.drop(frame[p].index)\<close>: the rows where \<open>p\<close> holds are removed.\<close>

definition drop_rows :: "(key \<Rightarrow> bool) \<Rightarrow> frame \<Rightarrow> frame" where
  "drop_rows p t = t\<lparr>index := filter (\<lambda>k. \<not> p k) (index t)\<rparr>"

text \<open>\<^verbatim>\<open>frame.divide(series, axis='index')\<close>: every cell of a row by the row's divisor.\<close>

definition divide_rows :: "frame \<Rightarrow> (key \<Rightarrow> num) \<Rightarrow> frame" where
  "divide_rows t s = t\<lparr>cell := (\<lambda>k c. fdiv (cell t k c) (s k))\<rparr>"

text \<open>\<^verbatim>\<open>frame.drop(c, axis=1)\<close>, for a column the frame has.\<close>

definition drop_column :: "string \<Rightarrow> frame \<Rightarrow> frame" where
  "drop_column c t = t\<lparr>columns := filter (\<lambda>c'. c' \<noteq> c) (columns t)\<rparr>"

text \<open>The names of the index levels of the pivot, as the two calls of \<^verbatim>\<open>pivot_table\<close> give them.\<close>

definition index_names :: "string \<Rightarrow> string list" where
  "index_names level =
     (if level = ''boiler'' then [''report_date'', ''plant_id_eia'', ''boiler_id'']
      else [''report_date'', ''plant_id_eia''])"

text \<open>
  \<^verbatim>\<open>frame.reset_index()\<close> turns the index levels into the leading columns and raises
  ValueError when a column already has the name of a level. The model keeps the labels
  in \<open>index\<close> and the fuel columns in \<open>columns\<close>; \<^verbatim>\<open>set_index\<close> in
  \<^verbatim>\<open>determine_primary_fuel\<close> moves the same key columns back.
\<close>

definition reset_index :: "string list \<Rightarrow> frame \<Rightarrow> error + frame" where
  "reset_index names t = (if list_ex (\<lambda>n. n \<in> set (columns t)) names then Inl ValueError else Inr t)"

subsection \<open>calculate\_fuel\_percentage\<close>

text \<open>
  Line 72 assigns the column \<^verbatim>\<open>fuel_consumed_mmbtu\<close> of the frame the caller passed: the
  function returns its result together with that frame as the caller finds it afterwards.
\<close>

definition assign_consumed_mmbtu :: "bf_frame \<Rightarrow> bf_frame" where
  "assign_consumed_mmbtu bf_df = bf_df\<lparr>fuel_consumed_mmbtu := Some (map consumed_mmbtu (records bf_df))\<rparr>"

text \<open>Lines 108-123, on the pivot: total, fillna, drop of the zero rows, division, drop of the total.\<close>

definition proportions :: "frame \<Rightarrow> frame" where
  "proportions fuel_pivot0 =
     (let t1 = set_column ''total'' (\<lambda>k. Some (sum_axis1 fuel_pivot0 k)) fuel_pivot0;
          t2 = fillna 0 t1;
          t3 = drop_rows (\<lambda>k. cell t2 k ''total'' = Some 0) t2;
          t4 = divide_rows t3 (\<lambda>k. cell t3 k ''total'')
      in drop_column ''total'' t4)"

definition calculate_fuel_percentage :: "bf_frame \<Rightarrow> string \<Rightarrow> (error + frame) \<times> bf_frame" where
  "calculate_fuel_percentage bf_df level =
     (let bf_df' = assign_consumed_mmbtu bf_df
      in (case fuel_pivot bf_df' level of
            Inl e \<Rightarrow> Inl e
          | Inr p \<Rightarrow> reset_index (index_names level) (proportions p),
          bf_df'))"

subsection \<open>determine\_primary\_fuel\<close>

text \<open>\<^verbatim>\<open>frame.where(mask)\<close> with \<^verbatim>\<open>mask = frame >= fuel_thresh\<close>: NaN where the mask is False.\<close>

definition where_ge :: "rat \<Rightarrow> frame \<Rightarrow> frame" where
  "where_ge fuel_thresh t =
     t\<lparr>cell := (\<lambda>k c. if fge (cell t k c) fuel_thresh then cell t k c else None)\<rparr>"

text \<open>
  The argmax of a row, NaN skipped, the first position winning a tie: the running best
  is replaced only by a strictly greater value.
\<close>

fun nanargmax :: "(string \<times> rat) option \<Rightarrow> (string \<times> num) list \<Rightarrow> (string \<times> rat) option" where
  "nanargmax best [] = best"
| "nanargmax best ((c, None) # xs) = nanargmax best xs"
| "nanargmax None ((c, Some v) # xs) = nanargmax (Some (c, v)) xs"
| "nanargmax (Some (b, m)) ((c, Some v) # xs) =
     nanargmax (if m < v then Some (c, v) else Some (b, m)) xs"

text \<open>\<^verbatim>\<open>frame.idxmax(axis=1)\<close> at one row: the label of the argmax, \<open>None\<close> (NaN) without a value.\<close>

definition idxmax :: "frame \<Rightarrow> key \<Rightarrow> string option" where
  "idxmax t k = map_option fst (nanargmax None (map (\<lambda>c. (c, cell t k c)) (columns t)))"

text \<open>Lines 51-52: the column \<^verbatim>\<open>primary_fuel\<close>, the missing labels filled with \<^verbatim>\<open>'unknown'\<close>.\<close>

definition primary_fuel :: "frame \<Rightarrow> key \<Rightarrow> string" where
  "primary_fuel t k = (case idxmax t k of None \<Rightarrow> ''unknown'' | Some c \<Rightarrow> c)"

text \<open>
  Lines 47-54 on the share table, its key columns set as index: the mask, the label of
  the first maximum of every row, \<^verbatim>\<open>'unknown'\<close> for a row without one. The result has
  the key columns and \<^verbatim>\<open>primary_fuel\<close>, one row per row of the share table. Over a
  table with rows and without any fuel column the argmax raises ValueError (numpy's
  argmax of an empty sequence); a table without rows gives a result without rows.
\<close>

definition primary_fuel_rows :: "rat \<Rightarrow> frame \<Rightarrow> error + (key \<times> string) list" where
  "primary_fuel_rows fuel_thresh pf_by_heat =
     (let masked = where_ge fuel_thresh pf_by_heat
      in if columns masked = [] \<and> index masked \<noteq> [] then Inl ValueError
         else Inr (map (\<lambda>k. (k, primary_fuel masked k)) (index masked)))"

definition determine_primary_fuel ::
  "bf_frame \<Rightarrow> rat \<Rightarrow> string \<Rightarrow> (error + (key \<times> string) list) \<times> bf_frame" where
  "determine_primary_fuel bf_df fuel_thresh level =
     (case calculate_fuel_percentage bf_df level of
        (Inl e, bf_df') \<Rightarrow> (Inl e, bf_df')
      | (Inr pf_by_heat, bf_df') \<Rightarrow> (primary_fuel_rows fuel_thresh pf_by_heat, bf_df'))"

section \<open>Quantities the statements name\<close>

text \<open>
  The long rows of a list of records after line 72: each record that has a group, with
  its product.
\<close>

definition longs :: "string \<Rightarrow> boiler_fuel list \<Rightarrow> long list" where
  "longs level rs = List.map_filter (\<lambda>r. long_row level (r, consumed_mmbtu r)) rs"


text \<open>
  The products of the records of one boiler, month and fuel code that are not missing:
  the duplicate values of that key.
\<close>

definition boiler_fuel_values :: "bf_frame \<Rightarrow> date \<Rightarrow> int \<Rightarrow> string \<Rightarrow> string \<Rightarrow> rat list" where
  "boiler_fuel_values bf_df d p b f =
     List.map_filter consumed_mmbtu
       (filter (\<lambda>r. report_date r = Some d \<and> plant_id_eia r = Some p \<and> boiler_id r = Some b
                   \<and> fuel_type_code r = Some f)
          (records bf_df))"

text \<open>
  The entity and period of a record at a level: its date, its plant and, at boiler level,
  its boiler (the fuel code is not part of it).
\<close>

definition entity_period :: "string \<Rightarrow> boiler_fuel \<Rightarrow> key option" where
  "entity_period level r =
     (case report_date r of None \<Rightarrow> None | Some d \<Rightarrow>
      (case plant_id_eia r of None \<Rightarrow> None | Some p \<Rightarrow>
       (if level = ''boiler''
        then (case boiler_id r of None \<Rightarrow> None | Some b \<Rightarrow> Some (d, p, Some b))
        else Some (d, p, None))))"

text \<open>
  The total heat content of an entity-period: the sum of
  \<^verbatim>\<open>fuel_consumed_units * fuel_mmbtu_per_unit\<close> over all its records, whatever their fuel
  code, a missing product counting as nothing.
\<close>

definition total_heat :: "string \<Rightarrow> bf_frame \<Rightarrow> key \<Rightarrow> rat" where
  "total_heat level bf_df k =
     sum_list (map (\<lambda>r. nan_to_zero (consumed_mmbtu r))
       (filter (\<lambda>r. entity_period level r = Some k) (records bf_df)))"



text \<open>A row of the share table after the mask of lines 48-49, as labelled cells in column order.\<close>

definition masked_row :: "rat \<Rightarrow> frame \<Rightarrow> key \<Rightarrow> (string \<times> num) list" where
  "masked_row th t k = map (\<lambda>c. (c, cell (where_ge th t) k c)) (columns t)"

section \<open>Example frames\<close>

text \<open>A record with all six fields present, and a frame that has no column \<^verbatim>\<open>fuel_consumed_mmbtu\<close> yet.\<close>

definition bf_row :: "int \<Rightarrow> string \<Rightarrow> date \<Rightarrow> string \<Rightarrow> rat \<Rightarrow> rat \<Rightarrow> boiler_fuel" where
  "bf_row p b d f u h =
     \<lparr>plant_id_eia = Some p, boiler_id = Some b, fuel_type_code = Some f, report_date = Some d,
      fuel_consumed_units = Some u, fuel_mmbtu_per_unit = Some h\<rparr>"

definition bf_table :: "boiler_fuel list \<Rightarrow> bf_frame" where
  "bf_table rs = \<lparr>records = rs, fuel_consumed_mmbtu = None\<rparr>"

text \<open>The scenario of the specification: 100 units of coal and no gas, plant 1, month 1.\<close>

definition ex_scenario :: bf_frame where
  "ex_scenario = bf_table [bf_row 1 ''b1'' 1 ''COAL'' 100 1, bf_row 1 ''b1'' 1 ''GAS'' 0 1]"

text \<open>A fuel whose code is the name of the helper column of line 109.\<close>

definition ex_total_fuel :: bf_frame where
  "ex_total_fuel = bf_table [bf_row 1 ''b1'' 1 ''COAL'' 1 1, bf_row 1 ''b1'' 1 ''total'' 1 1]"


text \<open>Two records of the same boiler, month and fuel.\<close>

definition ex_duplicates :: bf_frame where
  "ex_duplicates = bf_table [bf_row 1 ''b1'' 1 ''COAL'' 2 1, bf_row 1 ''b1'' 1 ''COAL'' 4 1,
     bf_row 1 ''b1'' 1 ''GAS'' 1 1]"

text \<open>A negative quantity of gas.\<close>

definition ex_negative :: bf_frame where
  "ex_negative = bf_table [bf_row 1 ''b1'' 1 ''COAL'' 3 1, bf_row 1 ''b1'' 1 ''GAS'' (- 1) 1]"

text \<open>Gas and coal with the same heat: a tie at the share 1/2.\<close>

definition ex_tie :: bf_frame where
  "ex_tie = bf_table [bf_row 1 ''b1'' 1 ''GAS'' 1 1, bf_row 1 ''b1'' 1 ''COAL'' 1 1]"

text \<open>A fuel whose code is the label that line 52 gives to a row without a primary fuel.\<close>

definition ex_unknown_fuel :: bf_frame where
  "ex_unknown_fuel = bf_table [bf_row 1 ''b1'' 1 ''unknown'' 1 1]"

text \<open>One boiler and month: two coal records of 1 and a gas record of -2, which sum to zero.\<close>

definition ex_cancel :: bf_frame where
  "ex_cancel = bf_table [bf_row 1 ''b1'' 1 ''COAL'' 1 1, bf_row 1 ''b1'' 1 ''COAL'' 1 1,
     bf_row 1 ''b1'' 1 ''GAS'' (- 2) 1]"


text \<open>
  A share table with a NaN share: the row that the program returns when the product of
  the coal record is beyond the range of float64 (the heat is \<open>inf\<close>, the share
  \<open>inf / inf\<close>) and the gas record has no heat.
\<close>

definition ex_nan_share :: frame where
  "ex_nan_share = \<lparr>index = [(1, 1, None)], columns = [''COAL'', ''GAS''],
     cell = (\<lambda>k c. if c = ''GAS'' then Some 0 else None)\<rparr>"

section \<open>Properties\<close>

subsection \<open>An unrecognised level\<close>

lemma fuel_pivot_other_level:
  "level \<noteq> ''boiler'' \<Longrightarrow> level \<noteq> ''plant'' \<Longrightarrow> fuel_pivot bf_df level = Inl UnboundLocalError"
  by (simp add: fuel_pivot_def)

text \<open>
  C10. For every input frame and every level other than \<^verbatim>\<open>'boiler'\<close> and \<^verbatim>\<open>'plant'\<close>,
  \<^verbatim>\<open>calculate_fuel_percentage\<close> raises (UnboundLocalError, at the first read of the pivot
  that no branch built) and so does \<^verbatim>\<open>determine_primary_fuel\<close>: neither returns a table.
\<close>

theorem unrecognized_level_raises:
  assumes "level \<noteq> ''boiler''" and "level \<noteq> ''plant''"
  shows "fst (calculate_fuel_percentage bf_df level) = Inl UnboundLocalError
       \<and> fst (determine_primary_fuel bf_df fuel_thresh level) = Inl UnboundLocalError"
  using assms
  by (simp add: calculate_fuel_percentage_def determine_primary_fuel_def Let_def
      fuel_pivot_other_level)

theorem unrecognized_level_raises_witness:
  "fst (calculate_fuel_percentage \<lparr>records = [], fuel_consumed_mmbtu = None\<rparr> ''unit'') = Inl UnboundLocalError
 \<and> fst (determine_primary_fuel \<lparr>records = [], fuel_consumed_mmbtu = None\<rparr> (9 / 10) ''unit'') = Inl UnboundLocalError"
  using unrecognized_level_raises [of "''unit''" "\<lparr>records = [], fuel_consumed_mmbtu = None\<rparr>" "9 / 10"]
  by simp

subsection \<open>The pipeline, step by step\<close>

lemma map_filter_zip_map:
  "List.map_filter g (zip xs (map f xs)) = List.map_filter (\<lambda>x. g (x, f x)) xs"
  by (induction xs) (simp_all add: map_filter_simps split: option.splits)

lemma long_rows_assign:
  "long_rows level (assign_consumed_mmbtu bf_df) = Inr (longs level (records bf_df))"
  by (simp add: long_rows_def assign_consumed_mmbtu_def longs_def map_filter_zip_map)



lemma fuel_pivot_cases:
  assumes "fuel_pivot (assign_consumed_mmbtu bf_df) level = Inr p"
  obtains "level = ''boiler''" and "p = pivot_table (longs ''boiler'' (records bf_df))"
  | "level = ''plant''" and "p = pivot_table (groupby_sum (longs ''plant'' (records bf_df)))"
  using assms
  by (auto simp: fuel_pivot_def long_rows_assign split: if_splits)

lemma index_proportions: "index (proportions p) = filter (\<lambda>k. sum_axis1 p k \<noteq> 0) (index p)"
  by (simp add: proportions_def Let_def drop_column_def divide_rows_def drop_rows_def fillna_def
      set_column_def)

lemma columns_proportions: "columns (proportions p) = filter (\<lambda>c. c \<noteq> ''total'') (columns p)"
  by (simp add: proportions_def Let_def drop_column_def divide_rows_def drop_rows_def fillna_def
      set_column_def)

lemma cell_proportions:
  "c \<noteq> ''total'' \<Longrightarrow>
   cell (proportions p) k c = fdiv (Some (nan_to_zero (cell p k c))) (Some (sum_axis1 p k))"
  by (simp add: proportions_def Let_def drop_column_def divide_rows_def drop_rows_def fillna_def
      set_column_def nan_to_zero_def split: option.splits)

lemma share_value:
  assumes "c \<noteq> ''total''" and "sum_axis1 p k \<noteq> 0"
  shows "cell (proportions p) k c = Some (nan_to_zero (cell p k c) / sum_axis1 p k)"
  using assms by (simp add: cell_proportions fdiv_def)

lemma calculate_cases:
  assumes "fst (calculate_fuel_percentage bf_df level) = Inr t"
  obtains p where "fuel_pivot (assign_consumed_mmbtu bf_df) level = Inr p"
    and "t = proportions p"
    and "\<not> list_ex (\<lambda>n. n \<in> set (columns (proportions p))) (index_names level)"
  using assms
  by (auto simp: calculate_fuel_percentage_def Let_def reset_index_def
      split: sum.splits if_splits)

subsection \<open>Groups and their values\<close>

lemma group_values_Nil [simp]: "group_values [] k f = []"
  by (simp add: group_values_def map_filter_simps)

lemma group_values_Cons_None [simp]:
  "group_values ((k', f', None) # ls) k f = group_values ls k f"
  by (simp add: group_values_def map_filter_simps)

lemma group_values_Cons_Some [simp]:
  "group_values ((k', f', Some v) # ls) k f =
     (if k' = k \<and> f' = f then v # group_values ls k f else group_values ls k f)"
  by (simp add: group_values_def map_filter_simps)

lemma longs_Nil [simp]: "longs level [] = []"
  by (simp add: longs_def map_filter_simps)

lemma longs_Cons [simp]:
  "longs level (r # rs) =
     (case group_key level r of None \<Rightarrow> longs level rs
      | Some (k, f) \<Rightarrow> (k, f, consumed_mmbtu r) # longs level rs)"
  by (simp add: longs_def map_filter_simps long_row_def split: option.splits)

lemma in_longs_iff:
  "(k, f, h) \<in> set (longs level rs) \<longleftrightarrow>
     (\<exists>r\<in>set rs. group_key level r = Some (k, f) \<and> consumed_mmbtu r = h)"
  by (induction rs) (auto split: option.splits)




lemma group_values_values:
  "v \<in> set (group_values ls k f) \<longleftrightarrow> (k, f, Some v) \<in> set ls"
proof (induction ls)
  case Nil
  show ?case by simp
next
  case (Cons x ls)
  obtain k' f' h where x: "x = (k', f', h)" by (cases x)
  show ?case
  proof (cases h)
    case None
    with Cons x show ?thesis by auto
  next
    case (Some w)
    with Cons x show ?thesis by auto
  qed
qed



lemma distinct_groups: "distinct (groups ls)"
  by (simp add: groups_def)

lemma group_values_map_Some:
  "group_values (map (\<lambda>(k, f). (k, f, Some (g k f))) xs) k f =
     List.map_filter (\<lambda>x. if x = (k, f) then Some (g k f) else None) xs"
  by (induction xs) (auto simp: map_filter_simps split: if_splits)

lemma map_filter_single:
  "distinct xs \<Longrightarrow>
   List.map_filter (\<lambda>x. if x = a then Some v else None) xs = (if a \<in> set xs then [v] else [])"
  by (induction xs) (auto simp: map_filter_simps)

lemma group_values_groupby_sum:
  "group_values (groupby_sum ls) k f =
     (if (k, f) \<in> set (groups ls) then [sum_list (group_values ls k f)] else [])"
  unfolding groupby_sum_def
  by (simp only: group_values_map_Some map_filter_single [OF distinct_groups])


subsection \<open>The pivot\<close>

lemma mean_eq_None [simp]: "mean vs = None \<longleftrightarrow> vs = []"
  by (simp add: mean_def)

lemma cell_pivot_table [simp]: "cell (pivot_table ls) k f = mean (group_values ls k f)"
  by (simp add: pivot_table_def Let_def)



lemma sorted_columns_pivot_table: "sorted (columns (pivot_table ls))"
  by (simp add: pivot_table_def Let_def)


subsection \<open>The shares of a row\<close>

text \<open>
  C1. The shares of every returned row are to sum to 1. The function breaks this for a
  fuel whose code is \<^verbatim>\<open>total\<close>: line 109 gives its helper column that name, so the
  column of the fuel is overwritten by the row total and dropped at line 123, although
  the docstring promises the percentage of heat input from each fuel type. With one unit
  of heat from \<^verbatim>\<open>COAL\<close> and one from \<^verbatim>\<open>total\<close>, the row returned has the single
  share 1/2.
\<close>

theorem total_fuel_shares_sum_to_half:
  "\<not> isl (fst (calculate_fuel_percentage ex_total_fuel ''plant''))
   \<and> (1, 1, None) \<in> set (index (projr (fst (calculate_fuel_percentage ex_total_fuel ''plant''))))
   \<and> columns (projr (fst (calculate_fuel_percentage ex_total_fuel ''plant''))) = [''COAL'']
   \<and> cell (projr (fst (calculate_fuel_percentage ex_total_fuel ''plant''))) (1, 1, None) ''COAL'' = Some (1 / 2)
   \<and> sum_axis1 (projr (fst (calculate_fuel_percentage ex_total_fuel ''plant''))) (1, 1, None) = 1 / 2"
  by code_simp

subsection \<open>Shares and the unit interval\<close>

lemma member_le_sum_list_nonneg:
  fixes g :: "'a \<Rightarrow> rat"
  assumes "x \<in> set xs" and "\<And>y. y \<in> set xs \<Longrightarrow> 0 \<le> g y"
  shows "g x \<le> sum_list (map g xs)"
  using assms
proof (induction xs)
  case Nil
  then show ?case by simp
next
  case (Cons a xs)
  have rest: "0 \<le> sum_list (map g xs)"
    by (rule sum_list_nonneg) (auto intro: Cons.prems(2))
  show ?case
  proof (cases "x = a")
    case True
    with rest show ?thesis by simp
  next
    case False
    with Cons.prems have "x \<in> set xs" by simp
    then have "g x \<le> sum_list (map g xs)"
      using Cons.prems(2) by (intro Cons.IH) auto
    moreover have "0 \<le> g a" by (rule Cons.prems(2)) simp
    ultimately show ?thesis by simp
  qed
qed

lemma mean_nonneg:
  assumes "\<And>v. v \<in> set vs \<Longrightarrow> (0::rat) \<le> v"
  shows "0 \<le> nan_to_zero (mean vs)"
proof (cases "vs = []")
  case True
  then show ?thesis by (simp add: mean_def nan_to_zero_def)
next
  case False
  have "0 \<le> sum_list vs" by (rule sum_list_nonneg) (rule assms)
  then show ?thesis using False by (simp add: mean_def nan_to_zero_def)
qed

lemma longs_values_nonneg:
  assumes "list_all (\<lambda>r. 0 \<le> nan_to_zero (consumed_mmbtu r)) rs"
    and "v \<in> set (group_values (longs level rs) k f)"
  shows "0 \<le> v"
proof -
  from assms(2) obtain r where "r \<in> set rs" and "consumed_mmbtu r = Some v"
    by (auto simp: group_values_values in_longs_iff)
  with assms(1) show ?thesis by (force simp: nan_to_zero_def list_all_iff)
qed

lemma fuel_pivot_cells_nonneg:
  assumes "fuel_pivot (assign_consumed_mmbtu bf_df) level = Inr p"
    and "list_all (\<lambda>r. 0 \<le> nan_to_zero (consumed_mmbtu r)) (records bf_df)"
  shows "0 \<le> nan_to_zero (cell p k f)"
  using assms(1)
proof (cases rule: fuel_pivot_cases)
  case 1
  show ?thesis
    unfolding 1(2) cell_pivot_table
    by (rule mean_nonneg) (rule longs_values_nonneg [OF assms(2)])
next
  case 2
  have "0 \<le> sum_list (group_values (longs ''plant'' (records bf_df)) k f)"
    by (rule sum_list_nonneg) (rule longs_values_nonneg [OF assms(2)])
  then show ?thesis
    unfolding 2(2) cell_pivot_table group_values_groupby_sum
    by (simp add: mean_def nan_to_zero_def)
qed

text \<open>
  C6, as the claim states it, fails: nothing in the function keeps a product from being
  negative. With 3 units of heat from coal and -1 from gas the shares are 3/2 and -1/2.
\<close>

theorem shares_outside_unit_interval_counterexample:
  "\<not> isl (fst (calculate_fuel_percentage ex_negative ''plant''))
   \<and> index (projr (fst (calculate_fuel_percentage ex_negative ''plant''))) = [(1, 1, None)]
   \<and> columns (projr (fst (calculate_fuel_percentage ex_negative ''plant''))) = [''COAL'', ''GAS'']
   \<and> cell (projr (fst (calculate_fuel_percentage ex_negative ''plant''))) (1, 1, None) ''COAL'' = Some (3 / 2)
   \<and> cell (projr (fst (calculate_fuel_percentage ex_negative ''plant''))) (1, 1, None) ''GAS'' = Some (- 1 / 2)"
  by code_simp

text \<open>
  C6, amended. When the product \<^verbatim>\<open>fuel_consumed_units * fuel_mmbtu_per_unit\<close> of every
  record is missing or not negative, every cell of the table returned that is a number
  lies between 0 and 1. (In the program a cell of that table is NaN where a heat went
  beyond the range of float64.)
\<close>

theorem shares_in_unit_interval:
  assumes "fst (calculate_fuel_percentage bf_df level) = Inr t"
    and "list_all (\<lambda>r. 0 \<le> nan_to_zero (consumed_mmbtu r)) (records bf_df)"
    and "k \<in> set (index t)" and "c \<in> set (columns t)" and "cell t k c = Some v"
  shows "0 \<le> v \<and> v \<le> 1"
  using assms(1)
proof (cases rule: calculate_cases)
  case (1 p)
  have nonneg: "0 \<le> nan_to_zero (cell p k c')" for c'
    by (rule fuel_pivot_cells_nonneg [OF 1(1) assms(2)])
  from assms(4) have c: "c \<noteq> ''total''" "c \<in> set (columns p)"
    by (simp_all add: 1(2) columns_proportions)
  from assms(3) have nz: "sum_axis1 p k \<noteq> 0"
    by (simp add: 1(2) index_proportions)
  have le: "nan_to_zero (cell p k c) \<le> sum_axis1 p k"
    unfolding sum_axis1_def
    by (rule member_le_sum_list_nonneg [OF c(2)]) (rule nonneg)
  with nonneg [of c] nz have pos: "0 < sum_axis1 p k" by simp
  have "cell t k c = Some (nan_to_zero (cell p k c) / sum_axis1 p k)"
    using c(1) nz by (simp add: 1(2) share_value)
  with assms(5) have v: "v = nan_to_zero (cell p k c) / sum_axis1 p k" by simp
  have "0 \<le> nan_to_zero (cell p k c) / sum_axis1 p k"
    using nonneg [of c] pos by simp
  moreover have "nan_to_zero (cell p k c) / sum_axis1 p k \<le> 1"
    using le pos by simp
  ultimately show ?thesis by (simp add: v)
qed

theorem shares_in_unit_interval_witness:
  "list_all (\<lambda>r. 0 \<le> nan_to_zero (consumed_mmbtu r)) (records ex_duplicates)
   \<and> (1, 1, Some ''b1'') \<in> set (index (projr (fst (calculate_fuel_percentage ex_duplicates ''boiler''))))
   \<and> ''GAS'' \<in> set (columns (projr (fst (calculate_fuel_percentage ex_duplicates ''boiler''))))
   \<and> cell (projr (fst (calculate_fuel_percentage ex_duplicates ''boiler''))) (1, 1, Some ''b1'') ''GAS'' = Some (1 / 4)
   \<and> (0::rat) \<le> 1 / 4 \<and> (1 / 4 :: rat) \<le> 1"
proof -
  let ?t = "projr (fst (calculate_fuel_percentage ex_duplicates ''boiler''))"
  have "\<not> isl (fst (calculate_fuel_percentage ex_duplicates ''boiler''))" by code_simp
  then have f: "fst (calculate_fuel_percentage ex_duplicates ''boiler'') = Inr ?t" by simp
  have a: "list_all (\<lambda>r. 0 \<le> nan_to_zero (consumed_mmbtu r)) (records ex_duplicates)"
    by code_simp
  have k: "(1, 1, Some ''b1'') \<in> set (index ?t)"
    by code_simp
  have c: "''GAS'' \<in> set (columns ?t)"
    by code_simp
  have d: "cell ?t (1, 1, Some ''b1'') ''GAS'' = Some (1 / 4)"
    by code_simp
  from shares_in_unit_interval [OF f a k c d] a k c d
  show ?thesis by simp
qed

subsection \<open>The cells of the pivot\<close>




text \<open>
  C8. On two records of one boiler, month and fuel the pivot is to fail or to take one of
  the two values. \<^verbatim>\<open>pivot_table\<close> does neither: called without \<^verbatim>\<open>aggfunc\<close> it
  aggregates with its default, the mean, although the comment at lines 83-84 announces
  the total MMBTU for that fuel, month and boiler, and the plant path sums. Two coal
  records of 2 and 4 for one boiler and month give the cell 3 (the plant path gives 6),
  and with one unit of gas the share 3/4: picking 2 would give 2/3, picking 4 would give
  4/5, the total would give 6/7.
\<close>

theorem boiler_duplicates_averaged:
  "\<not> isl (fuel_pivot (assign_consumed_mmbtu ex_duplicates) ''boiler'')
   \<and> boiler_fuel_values ex_duplicates 1 1 ''b1'' ''COAL'' = [2, 4]
   \<and> cell (projr (fuel_pivot (assign_consumed_mmbtu ex_duplicates) ''boiler'')) (1, 1, Some ''b1'') ''COAL'' = Some 3
   \<and> cell (projr (fuel_pivot (assign_consumed_mmbtu ex_duplicates) ''plant'')) (1, 1, None) ''COAL'' = Some 6
   \<and> \<not> isl (fst (calculate_fuel_percentage ex_duplicates ''boiler''))
   \<and> cell (projr (fst (calculate_fuel_percentage ex_duplicates ''boiler''))) (1, 1, Some ''b1'') ''COAL'' = Some (3 / 4)"
  by code_simp

subsection \<open>The caller's frame\<close>

text \<open>
  C9, as the claim states it, fails: line 72 assigns a column of the frame the caller
  passed. A frame without the column \<^verbatim>\<open>fuel_consumed_mmbtu\<close> has it after either call.
\<close>

theorem input_frame_counterexample:
  "fuel_consumed_mmbtu ex_scenario = None
   \<and> fuel_consumed_mmbtu (snd (calculate_fuel_percentage ex_scenario ''plant'')) = Some [Some 100, Some 0]
   \<and> fuel_consumed_mmbtu (snd (determine_primary_fuel ex_scenario (9 / 10) ''plant'')) = Some [Some 100, Some 0]"
  by code_simp

text \<open>
  C9, amended. Either function leaves the rows and the six input columns of the caller's
  frame as they were and changes nothing but the column \<^verbatim>\<open>fuel_consumed_mmbtu\<close>, which
  it adds or overwrites with the products; this holds whatever the level and whether the
  call returns or raises.
\<close>

theorem input_frame_effect:
  "snd (calculate_fuel_percentage bf_df level) =
     bf_df\<lparr>fuel_consumed_mmbtu := Some (map consumed_mmbtu (records bf_df))\<rparr>
   \<and> snd (determine_primary_fuel bf_df fuel_thresh level) =
     bf_df\<lparr>fuel_consumed_mmbtu := Some (map consumed_mmbtu (records bf_df))\<rparr>"
  by (simp add: calculate_fuel_percentage_def determine_primary_fuel_def Let_def
      assign_consumed_mmbtu_def split: sum.splits prod.splits)

theorem input_frame_effect_witness:
  "records (snd (calculate_fuel_percentage ex_scenario ''plant'')) = records ex_scenario
   \<and> fuel_consumed_mmbtu (snd (calculate_fuel_percentage ex_scenario ''plant'')) = Some [Some 100, Some 0]
   \<and> snd (determine_primary_fuel ex_scenario (9 / 10) ''plant'') = snd (calculate_fuel_percentage ex_scenario ''plant'')"
  using input_frame_effect [of ex_scenario "''plant''" "9 / 10"]
  by (simp add: ex_scenario_def bf_table_def bf_row_def consumed_mmbtu_def fmul_def)

subsection \<open>The first maximum of a row\<close>

lemma nanargmax_None_iff:
  "nanargmax best xs = None \<longleftrightarrow> best = None \<and> (\<forall>c v. (c, Some v) \<notin> set xs)"
  by (induction best xs rule: nanargmax.induct) auto

lemma nanargmax_mem:
  "nanargmax best xs = Some (c, v) \<Longrightarrow> best = Some (c, v) \<or> (c, Some v) \<in> set xs"
  by (induction best xs rule: nanargmax.induct) (auto split: if_splits)

lemma nanargmax_ge_best:
  "nanargmax (Some (b, m)) xs = Some (c, v) \<Longrightarrow> m \<le> v"
proof (induction xs arbitrary: b m)
  case Nil
  then show ?case by simp
next
  case (Cons x xs)
  obtain c' h where x: "x = (c', h)" by (cases x)
  show ?case
  proof (cases h)
    case None
    with Cons x show ?thesis by simp
  next
    case (Some w)
    show ?thesis
    proof (cases "m < w")
      case True
      with Cons.prems x Some have "nanargmax (Some (c', w)) xs = Some (c, v)" by simp
      from Cons.IH [OF this] True show ?thesis by simp
    next
      case False
      with Cons.prems x Some have "nanargmax (Some (b, m)) xs = Some (c, v)" by simp
      from Cons.IH [OF this] show ?thesis .
    qed
  qed
qed

lemma nanargmax_ge:
  "nanargmax best xs = Some (c, v) \<Longrightarrow> (c', Some w) \<in> set xs \<Longrightarrow> w \<le> v"
proof (induction best xs rule: nanargmax.induct)
  case (1 best)
  then show ?case by simp
next
  case (2 best c0 xs)
  then show ?case by auto
next
  case (3 c0 v0 xs)
  from 3(2) have r: "nanargmax (Some (c0, v0)) xs = Some (c, v)" by simp
  show ?case
  proof (cases "(c', Some w) \<in> set xs")
    case True
    with 3 r show ?thesis by simp
  next
    case False
    with 3(3) have "w = v0" by simp
    with nanargmax_ge_best [OF r] show ?thesis by simp
  qed
next
  case (4 b m c0 v0 xs)
  let ?best = "if m < v0 then Some (c0, v0) else Some (b, m)"
  from 4(2) have r: "nanargmax ?best xs = Some (c, v)" by simp
  show ?case
  proof (cases "(c', Some w) \<in> set xs")
    case True
    with 4(1) r show ?thesis by simp
  next
    case False
    with 4(3) have w: "w = v0" by simp
    show ?thesis
    proof (cases "m < v0")
      case True
      with r have "nanargmax (Some (c0, v0)) xs = Some (c, v)" by simp
      from nanargmax_ge_best [OF this] w show ?thesis by simp
    next
      case False
      with r have "nanargmax (Some (b, m)) xs = Some (c, v)" by simp
      from nanargmax_ge_best [OF this] False w show ?thesis by simp
    qed
  qed
qed

text \<open>The first maximum: with the best so far kept on a tie, the label found is the earliest.\<close>

lemma nanargmax_keeps_best:
  "nanargmax (Some (b, m)) xs = Some (c, m) \<Longrightarrow> c = b"
proof (induction xs arbitrary: b)
  case Nil
  then show ?case by simp
next
  case (Cons x xs)
  obtain c' h where x: "x = (c', h)" by (cases x)
  show ?case
  proof (cases h)
    case None
    with Cons x show ?thesis by simp
  next
    case (Some w)
    show ?thesis
    proof (cases "m < w")
      case True
      with Cons.prems x Some have "nanargmax (Some (c', w)) xs = Some (c, m)" by simp
      from nanargmax_ge_best [OF this] True show ?thesis by simp
    next
      case False
      with Cons.prems x Some have "nanargmax (Some (b, m)) xs = Some (c, m)" by simp
      from Cons.IH [OF this] show ?thesis .
    qed
  qed
qed

lemma nanargmax_first:
  assumes "nanargmax best xs = Some (c, v)" and "sorted (map fst xs)"
    and "(c', Some v) \<in> set xs"
    and "\<And>b m. best = Some (b, m) \<Longrightarrow> \<forall>a\<in>set (map fst xs). b \<le> a"
  shows "c \<le> c'"
  using assms
proof (induction best xs rule: nanargmax.induct)
  case (1 best)
  then show ?case by simp
next
  case (2 best c0 xs)
  from 2(2) have r: "nanargmax best xs = Some (c, v)" by simp
  from 2(3) have s: "sorted (map fst xs)" by simp
  from 2(4) have m: "(c', Some v) \<in> set xs" by simp
  have "\<forall>a\<in>set (map fst xs). b \<le> a" if "best = Some (b, m)" for b m
    using 2(5) [OF that] by simp
  from 2(1) [OF r s m this] show ?case by simp
next
  case (3 c0 v0 xs)
  from 3(2) have r: "nanargmax (Some (c0, v0)) xs = Some (c, v)" by simp
  from 3(3) have s: "sorted (map fst xs)" and le: "\<forall>a\<in>set (map fst xs). c0 \<le> a" by simp_all
  show ?case
  proof (cases "(c', Some v) \<in> set xs")
    case True
    have "\<forall>a\<in>set (map fst xs). b \<le> a" if "Some (c0, v0) = Some (b, m)" for b m
      using that le by simp
    from 3(1) [OF r s True this] show ?thesis by simp
  next
    case False
    with 3(4) have "c' = c0" "v = v0" by simp_all
    with r nanargmax_keeps_best [of c0 v0 xs c] show ?thesis by simp
  qed
next
  case (4 b m c0 v0 xs)
  let ?best = "if m < v0 then Some (c0, v0) else Some (b, m)"
  from 4(2) have r: "nanargmax ?best xs = Some (c, v)" by simp
  from 4(3) have s: "sorted (map fst xs)" and le0: "\<forall>a\<in>set (map fst xs). c0 \<le> a" by simp_all
  from 4(5) [of b m] have leb: "b \<le> c0" "\<forall>a\<in>set (map fst xs). b \<le> a" by simp_all
  have bound: "\<forall>a\<in>set (map fst xs). b' \<le> a" if "?best = Some (b', m')" for b' m'
    using that le0 leb by (auto split: if_splits)
  show ?case
  proof (cases "(c', Some v) \<in> set xs")
    case True
    from 4(1) [OF r s True bound] show ?thesis by simp
  next
    case False
    with 4(4) have c': "c' = c0" "v = v0" by simp_all
    show ?thesis
    proof (cases "m < v0")
      case True
      with r c' have "nanargmax (Some (c0, v0)) xs = Some (c, v0)" by simp
      from nanargmax_keeps_best [OF this] c' show ?thesis by simp
    next
      case False
      with r have rb: "nanargmax (Some (b, m)) xs = Some (c, v)" by simp
      from nanargmax_ge_best [OF rb] False c' have "m = v" by simp
      with rb have "c = b" using nanargmax_keeps_best [of b m xs c] by simp
      with leb c' show ?thesis by simp
    qed
  qed
qed

subsection \<open>The primary fuel of a row\<close>

lemma primary_fuel_rows_cases:
  assumes "primary_fuel_rows th t = Inr out"
  shows "out = map (\<lambda>k. (k, primary_fuel (where_ge th t) k)) (index t)"
  using assms
  by (simp add: primary_fuel_rows_def Let_def where_ge_def split: if_splits)

lemma determine_cases:
  assumes "fst (determine_primary_fuel bf_df th level) = Inr out"
  obtains t where "fst (calculate_fuel_percentage bf_df level) = Inr t"
    and "primary_fuel_rows th t = Inr out"
    and "out = map (\<lambda>k. (k, primary_fuel (where_ge th t) k)) (index t)"
proof (cases "calculate_fuel_percentage bf_df level")
  case (Pair res bf)
  with assms obtain t where t: "res = Inr t" and r: "primary_fuel_rows th t = Inr out"
    by (cases res) (simp_all add: determine_primary_fuel_def)
  from Pair t have "fst (calculate_fuel_percentage bf_df level) = Inr t" by simp
  with r primary_fuel_rows_cases [OF r] that show thesis by blast
qed

lemma calculate_columns_sorted:
  assumes "fst (calculate_fuel_percentage bf_df level) = Inr t"
  shows "sorted (columns t)"
  using assms
proof (cases rule: calculate_cases)
  case (1 p)
  from 1(1) have "sorted (columns p)"
    by (cases rule: fuel_pivot_cases) (simp_all add: sorted_columns_pivot_table)
  then show ?thesis
    using sorted_filter [of "\<lambda>x. x" "columns p" "\<lambda>c. c \<noteq> ''total''"]
    by (simp add: 1(2) columns_proportions)
qed

lemma in_masked_row:
  "(c, Some v) \<in> set (masked_row th t k) \<longleftrightarrow> c \<in> set (columns t) \<and> cell t k c = Some v \<and> th \<le> v"
  by (auto simp: masked_row_def where_ge_def fge_def split: if_splits option.splits)

lemma map_fst_masked_row: "map fst (masked_row th t k) = columns t"
  by (simp add: masked_row_def comp_def)

lemma primary_fuel_masked:
  "primary_fuel (where_ge th t) k =
     (case nanargmax None (masked_row th t k) of None \<Rightarrow> ''unknown'' | Some (c, v) \<Rightarrow> c)"
  by (simp add: primary_fuel_def idxmax_def masked_row_def where_ge_def split: option.splits)

lemma primary_fuel_unknown:
  assumes "\<forall>c\<in>set (columns t). \<forall>w. cell t k c = Some w \<longrightarrow> w < th"
  shows "primary_fuel (where_ge th t) k = ''unknown''"
proof -
  have "nanargmax None (masked_row th t k) = None"
    using assms by (force simp: nanargmax_None_iff in_masked_row)
  then show ?thesis by (simp add: primary_fuel_masked)
qed

lemma primary_fuel_maximum:
  assumes "c \<in> set (columns t)" and "cell t k c = Some w" and "th \<le> w"
  obtains v where "primary_fuel (where_ge th t) k \<in> set (columns t)"
    and "cell t k (primary_fuel (where_ge th t) k) = Some v" and "th \<le> v"
    and "\<And>c' w'. c' \<in> set (columns t) \<Longrightarrow> cell t k c' = Some w' \<Longrightarrow> th \<le> w' \<Longrightarrow> w' \<le> v"
    and "nanargmax None (masked_row th t k) = Some (primary_fuel (where_ge th t) k, v)"
proof -
  from assms have "(c, Some w) \<in> set (masked_row th t k)"
    by (simp add: in_masked_row)
  then have "nanargmax None (masked_row th t k) \<noteq> None"
    by (auto simp: nanargmax_None_iff)
  then obtain pf v where r: "nanargmax None (masked_row th t k) = Some (pf, v)"
    by (cases "nanargmax None (masked_row th t k)") auto
  then have pf: "primary_fuel (where_ge th t) k = pf"
    by (simp add: primary_fuel_masked)
  from nanargmax_mem [OF r] have m: "pf \<in> set (columns t)" "cell t k pf = Some v" "th \<le> v"
    by (simp_all add: in_masked_row)
  have "w' \<le> v" if "c' \<in> set (columns t)" "cell t k c' = Some w'" "th \<le> w'" for c' w'
    using nanargmax_ge [OF r, of c' w'] that by (simp add: in_masked_row)
  with m r pf that show thesis by blast
qed

text \<open>
  C3, as the claim states it, fails in two ways. A share that is NaN is not below the
  threshold, yet the mask of line 48 leaves it out like one that is: the row with the
  shares NaN and 0 is labelled \<^verbatim>\<open>unknown\<close> at the threshold 1/2. And the label of a row
  without a primary fuel is the string \<^verbatim>\<open>unknown\<close>, which a fuel can have as its code:
  a single fuel coded \<^verbatim>\<open>unknown\<close> has the share 1, above the threshold 9/10, and the
  row is labelled \<^verbatim>\<open>unknown\<close>, here the code of its primary fuel.
\<close>

theorem unknown_label_counterexample:
  "primary_fuel_rows (1 / 2) ex_nan_share = Inr [((1, 1, None), ''unknown'')]
   \<and> cell ex_nan_share (1, 1, None) ''COAL'' = None
   \<and> cell ex_nan_share (1, 1, None) ''GAS'' = Some 0
   \<and> fst (determine_primary_fuel ex_unknown_fuel (9 / 10) ''plant'') = Inr [((1, 1, None), ''unknown'')]
   \<and> \<not> isl (fst (calculate_fuel_percentage ex_unknown_fuel ''plant''))
   \<and> columns (projr (fst (calculate_fuel_percentage ex_unknown_fuel ''plant''))) = [''unknown'']
   \<and> cell (projr (fst (calculate_fuel_percentage ex_unknown_fuel ''plant''))) (1, 1, None) ''unknown'' = Some 1
   \<and> \<not> (1 :: rat) < 9 / 10"
  by code_simp

text \<open>
  C3, amended. For every share table and every threshold, every row of the result of
  lines 47-54 is a row of the table. When some share of the row is a number that reaches
  the threshold, the primary fuel is a fuel code of the table whose share in that row
  reaches the threshold and is the maximum of the numbers of the row; otherwise it is
  \<^verbatim>\<open>unknown\<close>. When no fuel is coded \<^verbatim>\<open>unknown\<close>, the label \<^verbatim>\<open>unknown\<close> stands
  exactly for the rows in which every share that is a number is below the threshold.
\<close>

theorem primary_fuel_by_threshold:
  assumes "primary_fuel_rows th t = Inr out" and "(k, pf) \<in> set out"
  shows "k \<in> set (index t)
     \<and> (if \<exists>c\<in>set (columns t). \<exists>w. cell t k c = Some w \<and> th \<le> w
        then \<exists>v. pf \<in> set (columns t) \<and> cell t k pf = Some v \<and> th \<le> v
               \<and> (\<forall>c\<in>set (columns t). \<forall>w. cell t k c = Some w \<longrightarrow> w \<le> v)
        else pf = ''unknown'')
     \<and> (''unknown'' \<notin> set (columns t) \<longrightarrow>
          (pf = ''unknown'' \<longleftrightarrow> (\<forall>c\<in>set (columns t). \<forall>w. cell t k c = Some w \<longrightarrow> w < th)))"
proof -
  from assms primary_fuel_rows_cases [OF assms(1)]
  have k: "k \<in> set (index t)" and pf: "pf = primary_fuel (where_ge th t) k"
    by auto
  let ?reached = "\<exists>c\<in>set (columns t). \<exists>w. cell t k c = Some w \<and> th \<le> w"
  have split: "if ?reached
        then \<exists>v. pf \<in> set (columns t) \<and> cell t k pf = Some v \<and> th \<le> v
               \<and> (\<forall>c\<in>set (columns t). \<forall>w. cell t k c = Some w \<longrightarrow> w \<le> v)
        else pf = ''unknown''"
  proof (cases ?reached)
    case True
    then obtain c w where c: "c \<in> set (columns t)" and w: "cell t k c = Some w" and r: "th \<le> w"
      by blast
    from primary_fuel_maximum [OF c w r]
    obtain v where m: "pf \<in> set (columns t)" "cell t k pf = Some v" "th \<le> v"
      and mx: "\<And>c' w'. c' \<in> set (columns t) \<Longrightarrow> cell t k c' = Some w' \<Longrightarrow> th \<le> w' \<Longrightarrow> w' \<le> v"
      unfolding pf by blast
    have "w' \<le> v" if c': "c' \<in> set (columns t)" and w': "cell t k c' = Some w'" for c' w'
    proof (cases "th \<le> w'")
      case True
      from mx [OF c' w' True] show ?thesis .
    next
      case False
      with m(3) show ?thesis by simp
    qed
    with True m show ?thesis by auto
  next
    case False
    then have "\<forall>c\<in>set (columns t). \<forall>w. cell t k c = Some w \<longrightarrow> w < th" by force
    from primary_fuel_unknown [OF this] pf have "pf = ''unknown''" by simp
    then show ?thesis unfolding if_not_P [OF False] .
  qed
  have iff: "pf = ''unknown'' \<longleftrightarrow> (\<forall>c\<in>set (columns t). \<forall>w. cell t k c = Some w \<longrightarrow> w < th)"
    if "''unknown'' \<notin> set (columns t)"
  proof (cases ?reached)
    case True
    with split that have "pf \<noteq> ''unknown''" by auto
    moreover from True have "\<not> (\<forall>c\<in>set (columns t). \<forall>w. cell t k c = Some w \<longrightarrow> w < th)"
      by force
    ultimately show ?thesis by simp
  next
    case False
    with split have "pf = ''unknown''" by simp
    moreover from False have "\<forall>c\<in>set (columns t). \<forall>w. cell t k c = Some w \<longrightarrow> w < th"
      by force
    ultimately show ?thesis by simp
  qed
  from k split iff show ?thesis by blast
qed

theorem primary_fuel_by_threshold_witness:
  "fst (determine_primary_fuel ex_scenario (9 / 10) ''plant'')
     = primary_fuel_rows (9 / 10) (projr (fst (calculate_fuel_percentage ex_scenario ''plant'')))
   \<and> primary_fuel_rows (9 / 10) (projr (fst (calculate_fuel_percentage ex_scenario ''plant'')))
     = Inr [((1, 1, None), ''COAL'')]
   \<and> columns (projr (fst (calculate_fuel_percentage ex_scenario ''plant''))) = [''COAL'', ''GAS'']
   \<and> cell (projr (fst (calculate_fuel_percentage ex_scenario ''plant''))) (1, 1, None) ''COAL'' = Some 1
   \<and> cell (projr (fst (calculate_fuel_percentage ex_scenario ''plant''))) (1, 1, None) ''GAS'' = Some 0
   \<and> ''COAL'' \<noteq> ''unknown''"
proof -
  let ?t = "projr (fst (calculate_fuel_percentage ex_scenario ''plant''))"
  have l: "fst (determine_primary_fuel ex_scenario (9 / 10) ''plant'') = primary_fuel_rows (9 / 10) ?t"
    by code_simp
  have d: "primary_fuel_rows (9 / 10) ?t = Inr [((1, 1, None), ''COAL'')]"
    by code_simp
  have m: "((1, 1, None), ''COAL'') \<in> set [((1 :: nat, 1 :: int, None :: string option), ''COAL'')]"
    by simp
  have c: "columns ?t = [''COAL'', ''GAS'']"
    by code_simp
  have v: "cell ?t (1, 1, None) ''COAL'' = Some 1" "cell ?t (1, 1, None) ''GAS'' = Some 0"
    by code_simp+
  from primary_fuel_by_threshold [OF d m] l d c v show ?thesis by simp
qed

lemma ex_tie_frame:
  "fst (calculate_fuel_percentage ex_tie ''plant'') =
     Inr (projr (fst (calculate_fuel_percentage ex_tie ''plant'')))"
proof -
  have "\<not> isl (fst (calculate_fuel_percentage ex_tie ''plant''))" by code_simp
  then show ?thesis by simp
qed

text \<open>
  C4. The columns of the share table are the fuel codes in lexicographic order (the
  pivot sorts them) and \<^verbatim>\<open>idxmax\<close> takes the first maximum: for every row, and every
  fuel \<open>c\<close> whose share is the maximum of the row and survives the mask, the primary fuel
  has that same share and is not after \<open>c\<close> in the order. Among fuels tied at the
  maximum the first code is selected.
\<close>

theorem tie_break_lexicographic:
  assumes "fst (determine_primary_fuel bf_df th level) = Inr out" and "(k, pf) \<in> set out"
    and "fst (calculate_fuel_percentage bf_df level) = Inr t"
    and "c \<in> set (columns t)" and "cell t k c = Some v" and "th \<le> v"
    and "\<forall>c'\<in>set (columns t). \<forall>w. cell t k c' = Some w \<longrightarrow> w \<le> v"
  shows "pf \<in> set (columns t) \<and> cell t k pf = Some v \<and> pf \<le> c"
  using assms(1)
proof (cases rule: determine_cases)
  case (1 t')
  with assms(3) have t: "t' = t" by simp
  from assms(2) 1(3) t have pf: "pf = primary_fuel (where_ge th t) k" by auto
  from primary_fuel_maximum [OF assms(4,5,6)]
  obtain v' where m: "pf \<in> set (columns t)" "cell t k pf = Some v'" "th \<le> v'"
    and mx: "\<And>c' w'. c' \<in> set (columns t) \<Longrightarrow> cell t k c' = Some w' \<Longrightarrow> th \<le> w' \<Longrightarrow> w' \<le> v'"
    and r: "nanargmax None (masked_row th t k) = Some (pf, v')"
    unfolding pf by blast
  from mx [OF assms(4,5,6)] assms(7) m(1,2) have v: "v' = v" by force
  have "(c, Some v) \<in> set (masked_row th t k)"
    using assms(4,5,6) by (simp add: in_masked_row)
  moreover have "sorted (map fst (masked_row th t k))"
    using calculate_columns_sorted [OF assms(3)] by (simp add: map_fst_masked_row)
  ultimately have "pf \<le> c"
    using nanargmax_first [of None "masked_row th t k" pf v c] r v by simp
  with m v show ?thesis by simp
qed

theorem tie_break_lexicographic_witness:
  "fst (determine_primary_fuel ex_tie (1 / 2) ''plant'') = Inr [((1, 1, None), ''COAL'')]
   \<and> columns (projr (fst (calculate_fuel_percentage ex_tie ''plant''))) = [''COAL'', ''GAS'']
   \<and> cell (projr (fst (calculate_fuel_percentage ex_tie ''plant''))) (1, 1, None) ''GAS'' = Some (1 / 2)
   \<and> cell (projr (fst (calculate_fuel_percentage ex_tie ''plant''))) (1, 1, None) ''COAL'' = Some (1 / 2)
   \<and> ''COAL'' \<le> ''GAS''"
proof -
  let ?t = "projr (fst (calculate_fuel_percentage ex_tie ''plant''))"
  have d: "fst (determine_primary_fuel ex_tie (1 / 2) ''plant'') = Inr [((1, 1, None), ''COAL'')]"
    by code_simp
  have m: "((1, 1, None), ''COAL'') \<in> set [((1 :: nat, 1 :: int, None :: string option), ''COAL'')]"
    by simp
  have c: "columns ?t = [''COAL'', ''GAS'']"
    by code_simp
  have g: "cell ?t (1, 1, None) ''GAS'' = Some (1 / 2)" and o: "cell ?t (1, 1, None) ''COAL'' = Some (1 / 2)"
    by code_simp+
  have "''GAS'' \<in> set (columns ?t)" by (simp add: c)
  moreover have "(1 / 2 :: rat) \<le> 1 / 2" by simp
  moreover have "\<forall>c'\<in>set (columns ?t). \<forall>w. cell ?t (1, 1, None) c' = Some w \<longrightarrow> w \<le> 1 / 2"
    using g o by (simp add: c)
  ultimately have "''COAL'' \<le> ''GAS''"
    using tie_break_lexicographic [OF d m ex_tie_frame _ g] by blast
  with d c g o show ?thesis by simp
qed

subsection \<open>Entity-periods without heat\<close>

text \<open>
  C2. An entity-period whose total heat content is zero is to be absent from the share
  table and from the result of the classifier. At boiler level the function misses this
  when records share boiler, month and fuel, by the defect of C8: the pivot averages
  them, so the row total of line 109 is a sum of means and not the total the comment at
  lines 83-84 announces. Two coal records of 1 and one gas record of -2 for the same
  boiler and month have the total heat 0, yet the row total is 1 - 2 = -1: the row is in
  the share table (shares -1 and 2) and in the result of the classifier. At plant level,
  where the records are summed, the same records leave no row.
\<close>

theorem zero_heat_row_kept:
  "total_heat ''boiler'' ex_cancel (1, 1, Some ''b1'') = 0
   \<and> \<not> isl (fst (calculate_fuel_percentage ex_cancel ''boiler''))
   \<and> index (projr (fst (calculate_fuel_percentage ex_cancel ''boiler''))) = [(1, 1, Some ''b1'')]
   \<and> cell (projr (fst (calculate_fuel_percentage ex_cancel ''boiler''))) (1, 1, Some ''b1'') ''COAL'' = Some (- 1)
   \<and> cell (projr (fst (calculate_fuel_percentage ex_cancel ''boiler''))) (1, 1, Some ''b1'') ''GAS'' = Some 2
   \<and> fst (determine_primary_fuel ex_cancel (1 / 2) ''boiler'') = Inr [((1, 1, Some ''b1''), ''GAS'')]
   \<and> total_heat ''plant'' ex_cancel (1, 1, None) = 0
   \<and> \<not> isl (fst (calculate_fuel_percentage ex_cancel ''plant''))
   \<and> index (projr (fst (calculate_fuel_percentage ex_cancel ''plant''))) = []
   \<and> fst (determine_primary_fuel ex_cancel (1 / 2) ''plant'') = Inr []"
  by code_simp

subsection \<open>Records with missing fields\<close>







end
